theory Spec2Isabelle
  imports Main
begin

section \<open>Python values, strings and exceptions\<close>

text \<open>
  A Python \<^verbatim>\<open>str\<close> is a sequence of Unicode code points and \<^verbatim>\<open>len\<close> counts code
  points, so a string is modelled as the list of its code points.  \<open>ascii\<close> embeds
  the ASCII literals of the source; a line break is the code point 10.
\<close>

type_synonym ustr = "int list"

definition ascii :: "string \<Rightarrow> ustr" where
  "ascii s = map of_char s"

definition nl :: ustr where
  "nl = [10]"

text \<open>
  The values that \<^verbatim>\<open>response.json()\<close> hands to the program: \<^verbatim>\<open>None\<close>, booleans,
  integers, strings, lists and dicts.  A dict is the association list of its entries; a
  lookup takes the first binding of a key and the keys of the dict are the distinct first
  components.  JSON numbers with a fraction (Python floats) are outside the model.
\<close>

datatype pyval =
    PNone
  | PBool bool
  | PInt int
  | PStr ustr
  | PList "pyval list"
  | PDict "(ustr \<times> pyval) list"

text \<open>
  The exceptions of the program, all subclasses of \<^verbatim>\<open>Exception\<close>: the three raised by
  the program's own operations on values, and the ones raised by the collaborators
  (the HTTP client, the JSON decoder, the Telegram client), which carry their message.
\<close>

datatype pyexn =
    TypeError
  | AttributeError
  | JSONDecodeError
  | HTTPError ustr
  | TelegramError ustr

text \<open>Sequencing of statements that may raise: the first exception ends the block.\<close>

definition andthen :: "pyexn + 'a \<Rightarrow> ('a \<Rightarrow> pyexn + 'b) \<Rightarrow> pyexn + 'b" where
  "andthen m f = (case m of Inl e \<Rightarrow> Inl e | Inr x \<Rightarrow> f x)"

text \<open>\<^verbatim>\<open>d.get(k, default)\<close> on a dict; on any other value the attribute is missing.\<close>

definition dict_get :: "(ustr \<times> pyval) list \<Rightarrow> ustr \<Rightarrow> pyval \<Rightarrow> pyval" where
  "dict_get d k dflt = (case map_of d k of None \<Rightarrow> dflt | Some v \<Rightarrow> v)"

fun py_get :: "pyval \<Rightarrow> ustr \<Rightarrow> pyval \<Rightarrow> pyexn + pyval" where
  "py_get (PDict d) k dflt = Inr (dict_get d k dflt)"
| "py_get _ k dflt = Inl AttributeError"

text \<open>
  \<^verbatim>\<open>for x in v\<close>: a list yields its elements, a string its one-character strings, a
  dict its keys; the other values are not iterable.
\<close>

fun py_iter :: "pyval \<Rightarrow> pyexn + pyval list" where
  "py_iter (PList xs) = Inr xs"
| "py_iter (PStr s) = Inr (map (\<lambda>c. PStr [c]) s)"
| "py_iter (PDict d) = Inr (map PStr (remdups (map fst d)))"
| "py_iter _ = Inl TypeError"

text \<open>\<^verbatim>\<open>len(v)\<close>.\<close>

fun py_len :: "pyval \<Rightarrow> pyexn + nat" where
  "py_len (PStr s) = Inr (length s)"
| "py_len (PList xs) = Inr (length xs)"
| "py_len (PDict d) = Inr (length (remdups (map fst d)))"
| "py_len _ = Inl TypeError"

text \<open>
  \<^verbatim>\<open>sep.join(xs)\<close>: every element must be a string, otherwise \<^verbatim>\<open>TypeError\<close>.
\<close>

fun join :: "ustr \<Rightarrow> ustr list \<Rightarrow> ustr" where
  "join sep [] = []"
| "join sep [x] = x"
| "join sep (x # y # ys) = x @ sep @ join sep (y # ys)"

fun strings_of :: "pyval list \<Rightarrow> pyexn + ustr list" where
  "strings_of [] = Inr []"
| "strings_of (PStr s # vs) = andthen (strings_of vs) (\<lambda>ss. Inr (s # ss))"
| "strings_of (_ # vs) = Inl TypeError"

definition py_join :: "ustr \<Rightarrow> pyval list \<Rightarrow> pyexn + ustr" where
  "py_join sep vs = andthen (strings_of vs) (\<lambda>ss. Inr (join sep ss))"

text \<open>
  The key under which a value sits in a Python set: \<^verbatim>\<open>True == 1\<close> and \<^verbatim>\<open>False == 0\<close>
  hash alike, lists and dicts are unhashable (\<^verbatim>\<open>TypeError\<close>).
\<close>

datatype pykey = KNone | KNum int | KStr ustr

fun py_key :: "pyval \<Rightarrow> pyexn + pykey" where
  "py_key PNone = Inr KNone"
| "py_key (PBool b) = Inr (KNum (if b then 1 else 0))"
| "py_key (PInt i) = Inr (KNum i)"
| "py_key (PStr s) = Inr (KStr s)"
| "py_key (PList xs) = Inl TypeError"
| "py_key (PDict d) = Inl TypeError"

text \<open>The decimal digits of \<^verbatim>\<open>f"{i}"\<close> for the counter of \<^verbatim>\<open>enumerate\<close>.\<close>

fun dec :: "nat \<Rightarrow> ustr" where
  "dec n = (if n < 10 then [48 + int n] else dec (n div 10) @ [48 + int (n mod 10)])"

declare dec.simps [simp del]

text \<open>\<^verbatim>\<open>p in s\<close> on strings.\<close>

fun contains :: "ustr \<Rightarrow> ustr \<Rightarrow> bool" where
  "contains p [] = (p = [])"
| "contains p (c # cs) = (take (length p) (c # cs) = p \<or> contains p cs)"

section \<open>The data: news items, snapshots, the environment of one cycle\<close>

text \<open>
  The dict built for every post (lines 117-124) and the dict \<^verbatim>\<open>news_data\<close> of the three
  lists (lines 77-81).  The field values are whatever the API sent.
\<close>

record news_item =
  title :: pyval
  url :: pyval
  source :: pyval
  published_at :: pyval
  currencies :: "pyval list"
  sentiment :: ustr

record news_data =
  bullish :: "news_item list"
  bearish :: "news_item list"
  neutral :: "news_item list"

text \<open>
  What \<^verbatim>\<open>await client.get(...)\<close> does: it raises (network error, timeout), or it
  returns a response with a status code and a body that \<^verbatim>\<open>.json()\<close> decodes or rejects.
\<close>

datatype http_result =
    GetRaises pyexn
  | Response int "pyexn + pyval"

text \<open>
  Everything one run of \<^verbatim>\<open>send_news_update\<close> takes from outside the program:
  whether \<^verbatim>\<open>CRYPTOPANIC_API_KEY\<close> is set, the outcome of the three requests, the
  OpenAI client (absent, or what \<^verbatim>\<open>generate_fud_analysis\<close> returns for a snapshot: the
  stripped completion, or the empty string after an exception), the formatted clock
  reading of the footer, what \<^verbatim>\<open>telegram.Bot(...).send_message\<close> does with a text
  (\<open>None\<close>: delivered), and two built-ins of Python: the text of a non-string value in an
  f-string and \<^verbatim>\<open>str(e)\<close> of an exception.
\<close>

record env =
  api_key_set :: bool
  bullish_response :: http_result
  bearish_response :: http_result
  neutral_response :: http_result
  openai_client :: "(news_data \<Rightarrow> ustr) option"
  now :: ustr
  send_message :: "ustr \<Rightarrow> pyexn option"
  format_value :: "pyval \<Rightarrow> ustr"
  str_exn :: "pyexn \<Rightarrow> ustr"

section \<open>fetch_cryptopanic_api (lines 75-162)\<close>

text \<open>The list comprehension \<^verbatim>\<open>[c.get("code") for c in ...]\<close>.\<close>

fun codes :: "pyval list \<Rightarrow> pyexn + pyval list" where
  "codes [] = Inr []"
| "codes (c # cs) =
     andthen (py_get c (ascii ''code'') PNone) (\<lambda>x.
     andthen (codes cs) (\<lambda>xs. Inr (x # xs)))"

text \<open>The dict literal appended for one post; the three loops differ in the tag only.\<close>

definition make_item :: "ustr \<Rightarrow> pyval \<Rightarrow> pyexn + news_item" where
  "make_item tag item =
     andthen (py_get item (ascii ''title'') (PStr [])) (\<lambda>t.
     andthen (py_get item (ascii ''url'') (PStr [])) (\<lambda>u.
     andthen (py_get item (ascii ''source'') (PDict [])) (\<lambda>src.
     andthen (py_get src (ascii ''title'') (PStr (ascii ''Unknown''))) (\<lambda>s.
     andthen (py_get item (ascii ''published_at'') (PStr [])) (\<lambda>p.
     andthen (py_get item (ascii ''currencies'') (PList [])) (\<lambda>cs.
     andthen (py_iter cs) (\<lambda>cl.
     andthen (codes cl) (\<lambda>cds.
     Inr \<lparr>title = t, url = u, source = s, published_at = p,
          currencies = cds, sentiment = tag\<rparr>))))))))"

text \<open>
  The loop \<^verbatim>\<open>for item in ...: news_data[tag].append({...})\<close>.  The list is mutated in
  place, so the items appended before an exception stay in it.
\<close>

fun append_items :: "ustr \<Rightarrow> pyval list \<Rightarrow> news_item list \<Rightarrow> news_item list \<times> pyexn option" where
  "append_items tag [] acc = (acc, None)"
| "append_items tag (x # xs) acc =
     (case make_item tag x of
        Inl e \<Rightarrow> (acc, Some e)
      | Inr it \<Rightarrow> append_items tag xs (acc @ [it]))"

text \<open>
  One of the three blocks "Process ... news" (lines 114-126, 129-141, 144-156), started
  on the empty list of its category: a status other than 200 is logged and skipped.
\<close>

definition process_response :: "ustr \<Rightarrow> int \<Rightarrow> pyexn + pyval \<Rightarrow> news_item list \<times> pyexn option" where
  "process_response tag status body =
     (if status = 200 then
        (case body of
           Inl e \<Rightarrow> ([], Some e)
         | Inr data \<Rightarrow>
             (case andthen (py_get data (ascii ''results'') (PList [])) py_iter of
                Inl e \<Rightarrow> ([], Some e)
              | Inr items \<Rightarrow> append_items tag items []))
      else ([], None))"

definition empty_news :: news_data where
  "empty_news = \<lparr>bullish = [], bearish = [], neutral = []\<rparr>"

text \<open>
  The three requests are awaited first, then the three responses are processed in
  order.  The handler of line 160 returns \<^verbatim>\<open>news_data\<close> as it stands when the exception
  arrives.
\<close>

definition fetch_cryptopanic_api :: "env \<Rightarrow> news_data" where
  "fetch_cryptopanic_api E =
     (if \<not> api_key_set E then empty_news
      else case bullish_response E of
        GetRaises e \<Rightarrow> empty_news
      | Response st1 body1 \<Rightarrow>
      (case bearish_response E of
        GetRaises e \<Rightarrow> empty_news
      | Response st2 body2 \<Rightarrow>
      (case neutral_response E of
        GetRaises e \<Rightarrow> empty_news
      | Response st3 body3 \<Rightarrow>
      (case process_response (ascii ''bullish'') st1 body1 of
        (b1, Some e) \<Rightarrow> \<lparr>bullish = b1, bearish = [], neutral = []\<rparr>
      | (b1, None) \<Rightarrow>
      (case process_response (ascii ''bearish'') st2 body2 of
        (b2, Some e) \<Rightarrow> \<lparr>bullish = b1, bearish = b2, neutral = []\<rparr>
      | (b2, None) \<Rightarrow>
      (case process_response (ascii ''neutral'') st3 body3 of
        (b3, _) \<Rightarrow> \<lparr>bullish = b1, bearish = b2, neutral = b3\<rparr>))))))"

section \<open>format_telegram_message (lines 242-310)\<close>

text \<open>A value inside an f-string: a string is inserted as it is.\<close>

definition py_format :: "env \<Rightarrow> pyval \<Rightarrow> ustr" where
  "py_format E v = (case v of PStr s \<Rightarrow> s | _ \<Rightarrow> format_value E v)"

text \<open>
  The body of the three item loops (lines 256-267, 273-284, 290-301) is the same text;
  it is modelled once.  First the currencies (lines 257-259).
\<close>

definition format_currencies :: "news_item \<Rightarrow> pyexn + ustr" where
  "format_currencies item =
     (if currencies item \<noteq> [] then
        andthen (py_join (ascii '', '') (currencies item)) (\<lambda>j.
        Inr (ascii '' ['' @ j @ ascii '']''))
      else Inr [])"

text \<open>
  "Clean up title - truncate if too long" (lines 262-264).  \<^verbatim>\<open>title[:97] + "..."\<close>
  is defined on a string only: a list cannot be concatenated with a string and a dict
  cannot be sliced (\<^verbatim>\<open>TypeError\<close>; \<^verbatim>\<open>KeyError\<close> from Python 3.12 on, caught alike).
\<close>

definition truncate_title :: "pyval \<Rightarrow> pyexn + pyval" where
  "truncate_title t =
     andthen (py_len t) (\<lambda>n.
       if n > 100 then
         (case t of
            PStr s \<Rightarrow> Inr (PStr (take 97 s @ ascii ''...''))
          | _ \<Rightarrow> Inl TypeError)
       else Inr t)"

definition render_item :: "env \<Rightarrow> nat \<Rightarrow> news_item \<Rightarrow> ustr \<Rightarrow> pyexn + ustr" where
  "render_item E i item message =
     andthen (format_currencies item) (\<lambda>cur.
     andthen (truncate_title (title item)) (\<lambda>t.
     Inr (message
          @ dec i @ ascii ''. ['' @ py_format E t @ ascii '']('' @ py_format E (url item)
          @ ascii '')'' @ cur @ nl
          @ ascii ''   *Source:* '' @ py_format E (source item) @ nl @ nl)))"

text \<open>\<^verbatim>\<open>for i, item in enumerate(items, i0): ...\<close> appending to \<^verbatim>\<open>message\<close>.\<close>

fun render_items :: "env \<Rightarrow> nat \<Rightarrow> news_item list \<Rightarrow> ustr \<Rightarrow> pyexn + ustr" where
  "render_items E i [] message = Inr message"
| "render_items E i (item # items) message =
     andthen (render_item E i item message) (render_items E (Suc i) items)"

text \<open>One category block: \<^verbatim>\<open>if news_data[c]: message += heading; for ... in news_data[c][:5]\<close>.\<close>

definition render_block :: "env \<Rightarrow> ustr \<Rightarrow> news_item list \<Rightarrow> ustr \<Rightarrow> pyexn + ustr" where
  "render_block E heading items message =
     (if items \<noteq> [] then render_items E 1 (take 5 items) (message @ heading)
      else Inr message)"

definition header :: ustr where
  "header = [128276] @ ascii '' *CRYPTO NEWS SENTIMENT UPDATE* '' @ [128276] @ nl @ nl"

definition bullish_heading :: ustr where
  "bullish_heading = [128200] @ ascii '' *BULLISH NEWS*'' @ nl @ nl"

definition bearish_heading :: ustr where
  "bearish_heading = [128201] @ ascii '' *BEARISH NEWS*'' @ nl @ nl"

definition neutral_heading :: ustr where
  "neutral_heading = [9878, 65039] @ ascii '' *NEUTRAL NEWS*'' @ nl @ nl"

definition footer :: "env \<Rightarrow> ustr" where
  "footer E = ascii ''_Updated on '' @ now E @ ascii '' UTC_'' @ nl
              @ ascii ''_This is not financial advice. DYOR!_ '' @ [129504]"

text \<open>The \<^verbatim>\<open>try\<close> block (lines 245-307).\<close>

definition format_body :: "env \<Rightarrow> news_data \<Rightarrow> ustr \<Rightarrow> pyexn + ustr" where
  "format_body E news fud_analysis =
     (let message = header;
          message = (if fud_analysis \<noteq> []
                     then message @ ascii ''*AI SENTIMENT ANALYSIS*'' @ nl @ fud_analysis @ nl @ nl
                     else message)
      in andthen (render_block E bullish_heading (bullish news) message) (\<lambda>message.
         andthen (render_block E bearish_heading (bearish news) message) (\<lambda>message.
         andthen (render_block E neutral_heading (neutral news) message) (\<lambda>message.
         Inr (message @ footer E)))))"

text \<open>The whole function: the handler of line 308 turns any exception into a text.\<close>

definition format_telegram_message :: "env \<Rightarrow> news_data \<Rightarrow> ustr \<Rightarrow> ustr" where
  "format_telegram_message E news fud_analysis =
     (case format_body E news fud_analysis of
        Inr message \<Rightarrow> message
      | Inl e \<Rightarrow> ascii ''Error formatting news: '' @ str_exn E e)"

section \<open>generate_fud_analysis: the currencies in the prompt (lines 182, 189, 196)\<close>

text \<open>
  The prompt for the narrative lists each item with its currencies in parentheses:
  \<^verbatim>\<open>", ".join(item["currencies"]) if item["currencies"] else "general market"\<close>.
  The rest of the function (the prompt text around it and the call of the API) is the
  field \<open>openai_client\<close> of the environment.
\<close>

definition summary_currencies :: "news_item \<Rightarrow> pyexn + ustr" where
  "summary_currencies item =
     (if currencies item \<noteq> [] then py_join (ascii '', '') (currencies item)
      else Inr (ascii ''general market''))"

section \<open>should_send_update (lines 312-334)\<close>

text \<open>The set comprehension \<^verbatim>\<open>{item["title"] for item in items}\<close>.\<close>

fun title_set :: "news_item list \<Rightarrow> pyexn + pykey set" where
  "title_set [] = Inr {}"
| "title_set (item # items) =
     andthen (py_key (title item)) (\<lambda>k.
     andthen (title_set items) (\<lambda>S. Inr (insert k S)))"

text \<open>One round of the loop over the three sentiments: \<^verbatim>\<open>len(current - previous)\<close>.\<close>

definition new_titles :: "news_item list \<Rightarrow> news_item list \<Rightarrow> pyexn + nat" where
  "new_titles current previous =
     andthen (title_set current) (\<lambda>current_titles.
     andthen (title_set previous) (\<lambda>previous_titles.
     Inr (card (current_titles - previous_titles))))"

definition count_new_items :: "news_data \<Rightarrow> news_data \<Rightarrow> pyexn + nat" where
  "count_new_items last_sent news =
     andthen (new_titles (bullish news) (bullish last_sent)) (\<lambda>n1.
     andthen (new_titles (bearish news) (bearish last_sent)) (\<lambda>n2.
     andthen (new_titles (neutral news) (neutral last_sent)) (\<lambda>n3.
     Inr (0 + n1 + n2 + n3))))"

text \<open>
  \<^verbatim>\<open>self.last_sent_news\<close> is the empty dict until the first update is sent and a
  snapshot afterwards: \<open>None\<close> is the empty dict, the only falsy value it takes.
\<close>

definition should_send_update :: "news_data option \<Rightarrow> news_data \<Rightarrow> bool" where
  "should_send_update last_sent_news news =
     (case last_sent_news of
        None \<Rightarrow> True
      | Some last_sent \<Rightarrow>
          (case count_new_items last_sent news of
             Inr new_items \<Rightarrow> new_items \<ge> 3
           | Inl e \<Rightarrow> True))"

section \<open>send_news_update (lines 336-378)\<close>

text \<open>
  The function returns nothing; what it does is the line it logs, the text it hands to
  \<^verbatim>\<open>send_message\<close> (if it gets that far) and the value of \<^verbatim>\<open>self.last_sent_news\<close> it
  leaves behind.
\<close>

datatype outcome =
    No_news_found
  | No_significant_updates
  | Sent_successfully
  | Error_sending pyexn

record cycle =
  last_sent :: "news_data option"
  logged :: outcome
  attempts :: "ustr list"

definition send_news_update :: "env \<Rightarrow> news_data option \<Rightarrow> cycle" where
  "send_news_update E last_sent_news =
     (let news = fetch_cryptopanic_api E;
          total_news = length (bullish news) + length (bearish news) + length (neutral news)
      in if total_news = 0 then
           \<lparr>last_sent = last_sent_news, logged = No_news_found, attempts = []\<rparr>
         else if \<not> should_send_update last_sent_news news then
           \<lparr>last_sent = last_sent_news, logged = No_significant_updates, attempts = []\<rparr>
         else
           (let fud_analysis = (case openai_client E of
                                  None \<Rightarrow> []
                                | Some generate_fud_analysis \<Rightarrow> generate_fud_analysis news);
                message = format_telegram_message E news fud_analysis
            in case send_message E message of
                 Some e \<Rightarrow>
                   \<lparr>last_sent = last_sent_news, logged = Error_sending e, attempts = [message]\<rparr>
               | None \<Rightarrow>
                   \<lparr>last_sent = Some news, logged = Sent_successfully, attempts = [message]\<rparr>))"

section \<open>Notions used in the statements\<close>

text \<open>The items of a snapshot, and the text handed to the delivery step.\<close>

definition items_of :: "news_data \<Rightarrow> news_item list" where
  "items_of news = bullish news @ bearish news @ neutral news"

definition composed_message :: "env \<Rightarrow> news_data \<Rightarrow> ustr" where
  "composed_message E news =
     format_telegram_message E news
       (case openai_client E of None \<Rightarrow> [] | Some generate_fud_analysis \<Rightarrow> generate_fud_analysis news)"

text \<open>
  A title that can be a member of a set: every text is one, and so are \<^verbatim>\<open>None\<close> and the
  numbers; a list or a dict is not.
\<close>

definition hashable :: "pyval \<Rightarrow> bool" where
  "hashable v = (case py_key v of Inr k \<Rightarrow> True | Inl e \<Rightarrow> False)"

definition titles_hashable :: "news_data \<Rightarrow> bool" where
  "titles_hashable news = list_all (\<lambda>item. hashable (title item)) (items_of news)"

text \<open>
  The change detector in the words of the specification: the title keys of a category,
  and the number of keys present in a category of the current snapshot but absent from
  the same category of the previous one, summed over the three categories.
\<close>

definition title_keys :: "news_item list \<Rightarrow> pykey set" where
  "title_keys items =
     set (List.map_filter
            (\<lambda>item. case py_key (title item) of Inr k \<Rightarrow> Some k | Inl e \<Rightarrow> None) items)"

definition new_item_count :: "news_data \<Rightarrow> news_data \<Rightarrow> nat" where
  "new_item_count previous current =
     card (title_keys (bullish current) - title_keys (bullish previous))
   + card (title_keys (bearish current) - title_keys (bearish previous))
   + card (title_keys (neutral current) - title_keys (neutral previous))"

text \<open>The narrative block of the message (line 250); nothing for an empty narrative.\<close>

definition narrative_block :: "ustr \<Rightarrow> ustr" where
  "narrative_block fud_analysis =
     (if fud_analysis \<noteq> [] then ascii ''*AI SENTIMENT ANALYSIS*'' @ nl @ fud_analysis @ nl @ nl
      else [])"

text \<open>
  What became of a request: it raised, or it was answered with status 200.
\<close>

definition request_raised :: "http_result \<Rightarrow> bool" where
  "request_raised r = (case r of GetRaises e \<Rightarrow> True | Response status body \<Rightarrow> False)"

definition served :: "http_result \<Rightarrow> bool" where
  "served r = (case r of GetRaises e \<Rightarrow> False | Response status body \<Rightarrow> status = 200)"

section \<open>Example inputs\<close>

text \<open>A post as the API sends it, and the item the fetch makes of it.\<close>

definition post :: "string \<Rightarrow> pyval" where
  "post t = PDict [(ascii ''title'', PStr (ascii t)),
                   (ascii ''url'', PStr (ascii ''https://example.org/'' @ ascii t)),
                   (ascii ''source'', PDict [(ascii ''title'', PStr (ascii ''Wire''))]),
                   (ascii ''published_at'', PStr (ascii ''2025-01-01'')),
                   (ascii ''currencies'', PList [PDict [(ascii ''code'', PStr (ascii ''BTC''))]])]"

definition story :: "string \<Rightarrow> string \<Rightarrow> news_item" where
  "story tag t = \<lparr>title = PStr (ascii t), url = PStr (ascii ''https://example.org/'' @ ascii t),
                  source = PStr (ascii ''Wire''), published_at = PStr (ascii ''2025-01-01''),
                  currencies = [PStr (ascii ''BTC'')], sentiment = ascii tag\<rparr>"

definition feed :: "string list \<Rightarrow> http_result" where
  "feed ts = Response 200 (Inr (PDict [(ascii ''results'', PList (map post ts))]))"

definition delivers :: "ustr \<Rightarrow> pyexn option" where
  "delivers message = None"

definition times_out :: "ustr \<Rightarrow> pyexn option" where
  "times_out message = Some (TelegramError (ascii ''Timed out''))"

text \<open>
  The two built-ins in the examples.  No example formats a value that is not a string,
  and the exception texts are the class names.
\<close>

definition repr_none :: "pyval \<Rightarrow> ustr" where
  "repr_none v = ascii ''None''"

definition class_name :: "pyexn \<Rightarrow> ustr" where
  "class_name e =
     (case e of
        TypeError \<Rightarrow> ascii ''TypeError''
      | AttributeError \<Rightarrow> ascii ''AttributeError''
      | JSONDecodeError \<Rightarrow> ascii ''JSONDecodeError''
      | HTTPError m \<Rightarrow> m
      | TelegramError m \<Rightarrow> m)"

text \<open>
  Four bullish posts and a channel that works; the same with a channel that is down;
  the same feed with no post at all.
\<close>

definition env_up :: env where
  "env_up = \<lparr>api_key_set = True,
             bullish_response = feed [''A'', ''B'', ''C'', ''D''],
             bearish_response = feed [],
             neutral_response = feed [],
             openai_client = None,
             now = ascii ''2025-01-01 12:00'',
             send_message = delivers,
             format_value = repr_none,
             str_exn = class_name\<rparr>"

definition env_down :: env where
  "env_down = env_up\<lparr>send_message := times_out\<rparr>"

definition env_quiet :: env where
  "env_quiet = env_up\<lparr>bullish_response := feed []\<rparr>"

definition snap_abcd :: news_data where
  "snap_abcd = \<lparr>bullish = map (story ''bullish'') [''A'', ''B'', ''C'', ''D''], bearish = [], neutral = []\<rparr>"

definition snap_one :: news_data where
  "snap_one = \<lparr>bullish = [story ''bullish'' ''A''], bearish = [], neutral = []\<rparr>"

definition snap_four :: news_data where
  "snap_four =
     \<lparr>bullish = [story ''bullish'' ''A'', story ''bullish'' ''B''],
      bearish = [story ''bearish'' ''C''],
      neutral = [story ''neutral'' ''D'']\<rparr>"

text \<open>A snapshot whose only title is a list (the API sent an array as the title).\<close>

definition snap_list_title :: news_data where
  "snap_list_title =
     \<lparr>bullish = [(story ''bullish'' ''A'')\<lparr>title := PList [PStr (ascii ''A'')]\<rparr>],
      bearish = [], neutral = []\<rparr>"

text \<open>
  The bullish feed answered, the bearish request got a status 500 with a body that is
  not JSON; and the feed with the third request timing out.
\<close>

definition env_partial :: env where
  "env_partial = env_up\<lparr>bearish_response := Response 500 (Inl JSONDecodeError)\<rparr>"

definition env_offline :: env where
  "env_offline = env_up\<lparr>neutral_response := GetRaises (HTTPError (ascii ''ConnectTimeout''))\<rparr>"

text \<open>The two lines the composer writes for the \<open>i\<close>-th example story.\<close>

definition story_line :: "nat \<Rightarrow> string \<Rightarrow> ustr" where
  "story_line i t =
     dec i @ ascii ''. ['' @ ascii t @ ascii ''](https://example.org/'' @ ascii t @ ascii '') [BTC]'' @ nl
     @ ascii ''   *Source:* Wire'' @ nl @ nl"

text \<open>A category of 50 stories, and the five entries rendered for it.\<close>

definition fifty_stories :: "news_item list" where
  "fifty_stories =
     map (story ''bullish'') [''A'', ''B'', ''C'', ''D'', ''E'']
     @ replicate 45 (story ''bullish'' ''F'')"

definition five_lines :: "ustr list" where
  "five_lines = [story_line 1 ''A'', story_line 2 ''B'', story_line 3 ''C'', story_line 4 ''D'',
                 story_line 5 ''E'']"

text \<open>
  A story with a title of 150 characters, one with no currency code, and one whose only
  code is \<^verbatim>\<open>None\<close> (a currency entry without the key \<^verbatim>\<open>code\<close>).
\<close>

definition long_story :: news_item where
  "long_story = (story ''bullish'' ''A'')\<lparr>title := PStr (replicate 150 120)\<rparr>"

definition bare_story :: news_item where
  "bare_story = (story ''bullish'' ''A'')\<lparr>currencies := []\<rparr>"

definition snap_bare :: news_data where
  "snap_bare = \<lparr>bullish = [bare_story], bearish = [], neutral = []\<rparr>"

definition bare_message :: ustr where
  "bare_message =
     header @ bullish_heading
     @ ascii ''1. [A](https://example.org/A)'' @ nl @ ascii ''   *Source:* Wire'' @ nl @ nl
     @ ascii ''_Updated on 2025-01-01 12:00 UTC_'' @ nl
     @ ascii ''_This is not financial advice. DYOR!_ '' @ [129504]"

definition null_code_story :: news_item where
  "null_code_story = (story ''bullish'' ''A'')\<lparr>currencies := [PNone]\<rparr>"

definition snap_null_code :: news_data where
  "snap_null_code = \<lparr>bullish = [null_code_story], bearish = [], neutral = []\<rparr>"

section \<open>Basic facts\<close>

lemma andthen_Inr [simp]: "andthen (Inr x) f = f x"
  by (simp add: andthen_def)

lemma andthen_Inl [simp]: "andthen (Inl e) f = Inl e"
  by (simp add: andthen_def)

lemma items_of_Nil:
  "items_of news = [] \<longleftrightarrow> bullish news = [] \<and> bearish news = [] \<and> neutral news = []"
  by (simp add: items_of_def)

subsection \<open>The examples\<close>

lemma hashable_story [simp]: "hashable (title (story tag t))"
  by (simp add: story_def hashable_def)

lemma key_story [simp]: "py_key (title (story tag t)) = Inr (KStr (ascii t))"
  by (simp add: story_def)

lemma make_item_post: "make_item (ascii tag) (post t) = Inr (story tag t)"
  by (simp add: make_item_def post_def story_def dict_get_def ascii_def)

lemma append_items_posts:
  "append_items (ascii tag) (map post ts) acc = (acc @ map (story tag) ts, None)"
  by (induction ts arbitrary: acc) (simp_all add: make_item_post)

lemma process_response_feed:
  "process_response (ascii tag) 200 (Inr (PDict [(ascii ''results'', PList (map post ts))]))
     = (map (story tag) ts, None)"
  by (simp add: process_response_def dict_get_def append_items_posts)

lemma fetch_env_up: "fetch_cryptopanic_api env_up = snap_abcd"
  using process_response_feed [of "''bullish''" "[''A'', ''B'', ''C'', ''D'']"]
    process_response_feed [of "''bearish''" "[]"] process_response_feed [of "''neutral''" "[]"]
  by (simp add: fetch_cryptopanic_api_def env_up_def feed_def snap_abcd_def)

lemma fetch_env_down: "fetch_cryptopanic_api env_down = snap_abcd"
  using process_response_feed [of "''bullish''" "[''A'', ''B'', ''C'', ''D'']"]
    process_response_feed [of "''bearish''" "[]"] process_response_feed [of "''neutral''" "[]"]
  by (simp add: fetch_cryptopanic_api_def env_down_def env_up_def feed_def snap_abcd_def)

lemma fetch_env_quiet: "fetch_cryptopanic_api env_quiet = empty_news"
  using process_response_feed [of "''bullish''" "[]"]
    process_response_feed [of "''bearish''" "[]"] process_response_feed [of "''neutral''" "[]"]
  by (simp add: fetch_cryptopanic_api_def env_quiet_def env_up_def feed_def empty_news_def)

lemma items_of_snap_abcd: "items_of snap_abcd \<noteq> []"
  by (simp add: items_of_def snap_abcd_def)

lemma titles_hashable_snap_abcd: "titles_hashable snap_abcd"
  by (simp add: titles_hashable_def items_of_def snap_abcd_def)

section \<open>The change detector\<close>

lemma title_keys_Nil [simp]: "title_keys [] = {}"
  by (simp add: title_keys_def map_filter_simps)

lemma title_keys_Cons:
  "title_keys (item # items) =
     (case py_key (title item) of
        Inr k \<Rightarrow> insert k (title_keys items)
      | Inl e \<Rightarrow> title_keys items)"
  by (simp add: title_keys_def map_filter_simps split: sum.splits)

text \<open>On hashable titles the set comprehension of the code builds the keys of the specification.\<close>

lemma title_set_hashable:
  "list_all (\<lambda>item. hashable (title item)) items \<Longrightarrow> title_set items = Inr (title_keys items)"
  by (induction items) (auto simp: hashable_def title_keys_Cons split: sum.splits)

lemma title_set_unhashable:
  "\<not> list_all (\<lambda>item. hashable (title item)) items \<Longrightarrow> \<exists>e. title_set items = Inl e"
  by (induction items) (auto simp: hashable_def andthen_def split: sum.splits)

lemma title_set_Inr:
  "title_set items = Inr S \<Longrightarrow> list_all (\<lambda>item. hashable (title item)) items"
  using title_set_unhashable [of items] by auto

lemma new_titles_hashable:
  "list_all (\<lambda>item. hashable (title item)) cur \<Longrightarrow>
   list_all (\<lambda>item. hashable (title item)) prev \<Longrightarrow>
   new_titles cur prev = Inr (card (title_keys cur - title_keys prev))"
  by (simp add: new_titles_def title_set_hashable)

lemma new_titles_Inr:
  "new_titles cur prev = Inr n \<Longrightarrow>
   list_all (\<lambda>item. hashable (title item)) cur \<and> list_all (\<lambda>item. hashable (title item)) prev"
  by (auto simp: new_titles_def andthen_def dest: title_set_Inr split: sum.splits)

lemma count_new_items_hashable:
  "titles_hashable previous \<Longrightarrow> titles_hashable current \<Longrightarrow>
   count_new_items previous current = Inr (new_item_count previous current)"
  by (simp add: count_new_items_def new_item_count_def titles_hashable_def items_of_def
      new_titles_hashable)

lemma count_new_items_Inr:
  "count_new_items previous current = Inr n \<Longrightarrow>
   titles_hashable previous \<and> titles_hashable current"
  by (auto simp: count_new_items_def andthen_def titles_hashable_def items_of_def
      dest!: new_titles_Inr split: sum.splits)

lemma count_new_items_unhashable:
  "\<not> titles_hashable previous \<or> \<not> titles_hashable current \<Longrightarrow>
   \<exists>e. count_new_items previous current = Inl e"
  using count_new_items_Inr [of previous current]
  by (cases "count_new_items previous current") auto

lemma count_new_items_same:
  "titles_hashable news \<Longrightarrow> count_new_items news news = Inr 0"
  by (simp add: count_new_items_hashable new_item_count_def)

text \<open>
  Claim C2.  With no snapshot sent before, \<open>should_send_update\<close> is true for every
  snapshot.  With a previous snapshot, and all titles of both snapshots usable as keys
  (every text title is), it is true exactly when the number of title keys that are in a
  category of the current snapshot and not in the same category of the previous one,
  summed over bullish, bearish and neutral, is at least 3.  So a current snapshot that
  only drops items and adds none gives false.
\<close>

theorem should_send_update_contract:
  "should_send_update None S
   \<and> (titles_hashable previous \<and> titles_hashable current \<longrightarrow>
        should_send_update (Some previous) current = (3 \<le> new_item_count previous current))
   \<and> (titles_hashable previous \<and> titles_hashable current
        \<and> title_keys (bullish current) \<subseteq> title_keys (bullish previous)
        \<and> title_keys (bearish current) \<subseteq> title_keys (bearish previous)
        \<and> title_keys (neutral current) \<subseteq> title_keys (neutral previous) \<longrightarrow>
        \<not> should_send_update (Some previous) current)"
proof -
  have first: "should_send_update None S"
    by (simp add: should_send_update_def)
  have iff: "should_send_update (Some previous) current = (3 \<le> new_item_count previous current)"
    if "titles_hashable previous" "titles_hashable current"
    using that by (simp add: should_send_update_def count_new_items_hashable)
  have removed: "new_item_count previous current = 0"
    if "title_keys (bullish current) \<subseteq> title_keys (bullish previous)"
       "title_keys (bearish current) \<subseteq> title_keys (bearish previous)"
       "title_keys (neutral current) \<subseteq> title_keys (neutral previous)"
  proof -
    from that have e: "title_keys (bullish current) - title_keys (bullish previous) = {}"
      "title_keys (bearish current) - title_keys (bearish previous) = {}"
      "title_keys (neutral current) - title_keys (neutral previous) = {}"
      by blast+
    show ?thesis unfolding new_item_count_def e by simp
  qed
  show ?thesis
    using first iff removed by auto
qed

theorem should_send_update_contract_witness:
  "titles_hashable snap_one \<and> titles_hashable snap_four
   \<and> new_item_count snap_one snap_four = 3
   \<and> should_send_update (Some snap_one) snap_four
   \<and> title_keys (bullish snap_one) \<subseteq> title_keys (bullish snap_four)
   \<and> title_keys (bearish snap_one) \<subseteq> title_keys (bearish snap_four)
   \<and> title_keys (neutral snap_one) \<subseteq> title_keys (neutral snap_four)
   \<and> \<not> should_send_update (Some snap_four) snap_one"
proof -
  have h: "titles_hashable snap_one" "titles_hashable snap_four"
    by (simp_all add: titles_hashable_def items_of_def snap_one_def snap_four_def)
  have n: "new_item_count snap_one snap_four = 3"
    by (simp add: new_item_count_def snap_one_def snap_four_def title_keys_Cons ascii_def)
  have s: "title_keys (bullish snap_one) \<subseteq> title_keys (bullish snap_four)"
     "title_keys (bearish snap_one) \<subseteq> title_keys (bearish snap_four)"
     "title_keys (neutral snap_one) \<subseteq> title_keys (neutral snap_four)"
    by (simp_all add: snap_one_def snap_four_def title_keys_Cons)
  from h should_send_update_contract [of snap_one snap_one snap_four]
  have "should_send_update (Some snap_one) snap_four = (3 \<le> new_item_count snap_one snap_four)"
    by blast
  with n have yes: "should_send_update (Some snap_one) snap_four"
    by simp
  from h s should_send_update_contract [of snap_one snap_four snap_one]
  have no: "\<not> should_send_update (Some snap_four) snap_one"
    by blast
  show ?thesis
    using h n s yes no by blast
qed

text \<open>
  Claim C10.  When the comparison raises, \<open>should_send_update\<close> does not pass the
  exception on: it answers true.  The comparison raises as soon as a title of the
  previous or of the current snapshot cannot be a set member.
\<close>

theorem should_send_update_error_sends:
  "(\<forall>e. count_new_items previous current = Inl e \<longrightarrow> should_send_update (Some previous) current)
   \<and> (\<not> titles_hashable previous \<or> \<not> titles_hashable current \<longrightarrow>
        (\<exists>e. count_new_items previous current = Inl e)
        \<and> should_send_update (Some previous) current)"
proof -
  have caught: "should_send_update (Some previous) current"
    if "count_new_items previous current = Inl e" for e
    using that by (simp add: should_send_update_def)
  show ?thesis
    using caught count_new_items_unhashable [of previous current] by blast
qed

theorem should_send_update_error_sends_witness:
  "\<not> titles_hashable snap_list_title
   \<and> count_new_items snap_one snap_list_title = Inl TypeError
   \<and> should_send_update (Some snap_one) snap_list_title"
proof -
  have u: "\<not> titles_hashable snap_list_title"
    by (simp add: titles_hashable_def items_of_def snap_list_title_def hashable_def)
  have c: "count_new_items snap_one snap_list_title = Inl TypeError"
    by (simp add: count_new_items_def new_titles_def snap_one_def snap_list_title_def)
  from u c should_send_update_error_sends [of snap_one snap_list_title] show ?thesis
    by blast
qed

section \<open>The update cycle\<close>

text \<open>The four ways through \<open>send_news_update\<close>.\<close>

lemma send_news_update_no_news:
  "items_of (fetch_cryptopanic_api E) = [] \<Longrightarrow>
   send_news_update E st = \<lparr>last_sent = st, logged = No_news_found, attempts = []\<rparr>"
  by (simp add: send_news_update_def items_of_Nil)

lemma send_news_update_not_significant:
  "items_of (fetch_cryptopanic_api E) \<noteq> [] \<Longrightarrow> \<not> should_send_update st (fetch_cryptopanic_api E) \<Longrightarrow>
   send_news_update E st = \<lparr>last_sent = st, logged = No_significant_updates, attempts = []\<rparr>"
  by (auto simp: send_news_update_def items_of_Nil Let_def)

lemma send_news_update_delivered:
  "items_of (fetch_cryptopanic_api E) \<noteq> [] \<Longrightarrow> should_send_update st (fetch_cryptopanic_api E) \<Longrightarrow>
   send_message E (composed_message E (fetch_cryptopanic_api E)) = None \<Longrightarrow>
   send_news_update E st =
     \<lparr>last_sent = Some (fetch_cryptopanic_api E), logged = Sent_successfully,
      attempts = [composed_message E (fetch_cryptopanic_api E)]\<rparr>"
  by (auto simp: send_news_update_def items_of_Nil Let_def composed_message_def)

lemma send_news_update_failed:
  "items_of (fetch_cryptopanic_api E) \<noteq> [] \<Longrightarrow> should_send_update st (fetch_cryptopanic_api E) \<Longrightarrow>
   send_message E (composed_message E (fetch_cryptopanic_api E)) = Some e \<Longrightarrow>
   send_news_update E st =
     \<lparr>last_sent = st, logged = Error_sending e,
      attempts = [composed_message E (fetch_cryptopanic_api E)]\<rparr>"
  by (auto simp: send_news_update_def items_of_Nil Let_def composed_message_def)

lemma send_news_update_cases:
  obtains
    (no_news) "items_of (fetch_cryptopanic_api E) = []"
      "send_news_update E st = \<lparr>last_sent = st, logged = No_news_found, attempts = []\<rparr>"
  | (not_significant) "items_of (fetch_cryptopanic_api E) \<noteq> []"
      "\<not> should_send_update st (fetch_cryptopanic_api E)"
      "send_news_update E st = \<lparr>last_sent = st, logged = No_significant_updates, attempts = []\<rparr>"
  | (delivered) "items_of (fetch_cryptopanic_api E) \<noteq> []"
      "should_send_update st (fetch_cryptopanic_api E)"
      "send_message E (composed_message E (fetch_cryptopanic_api E)) = None"
      "send_news_update E st =
         \<lparr>last_sent = Some (fetch_cryptopanic_api E), logged = Sent_successfully,
          attempts = [composed_message E (fetch_cryptopanic_api E)]\<rparr>"
  | (failed) e where "items_of (fetch_cryptopanic_api E) \<noteq> []"
      "should_send_update st (fetch_cryptopanic_api E)"
      "send_message E (composed_message E (fetch_cryptopanic_api E)) = Some e"
      "send_news_update E st =
         \<lparr>last_sent = st, logged = Error_sending e,
          attempts = [composed_message E (fetch_cryptopanic_api E)]\<rparr>"
proof (cases "items_of (fetch_cryptopanic_api E) = []")
  case True
  then show ?thesis using no_news send_news_update_no_news by blast
next
  case nonempty: False
  show ?thesis
  proof (cases "should_send_update st (fetch_cryptopanic_api E)")
    case False
    with nonempty show ?thesis
      using not_significant send_news_update_not_significant by blast
  next
    case True
    show ?thesis
    proof (cases "send_message E (composed_message E (fetch_cryptopanic_api E))")
      case None
      with nonempty True show ?thesis
        using delivered send_news_update_delivered by blast
    next
      case (Some e)
      with nonempty True show ?thesis
        using failed send_news_update_failed by blast
    qed
  qed
qed

text \<open>
  Claim C1.  When the cycle reaches the delivery step (the snapshot is not empty and the
  detector says send) and the delivery step accepts the composed text, the retained
  snapshot is replaced by the snapshot of this cycle; when the delivery step raises, the
  retained snapshot is the one from before the cycle.  The retained snapshot changes in
  no other way: it changes only when the update was delivered.  After a failed delivery
  a later cycle that fetches the same snapshot decides to send again, composes the
  update anew and, when the delivery works, commits the snapshot.
\<close>

theorem commit_only_after_delivery:
  assumes "c = send_news_update E st"
  shows "(items_of (fetch_cryptopanic_api E) \<noteq> []
          \<and> should_send_update st (fetch_cryptopanic_api E)
          \<and> send_message E (composed_message E (fetch_cryptopanic_api E)) = None \<longrightarrow>
          c = \<lparr>last_sent = Some (fetch_cryptopanic_api E), logged = Sent_successfully,
               attempts = [composed_message E (fetch_cryptopanic_api E)]\<rparr>)
     \<and> (\<forall>e. items_of (fetch_cryptopanic_api E) \<noteq> []
          \<and> should_send_update st (fetch_cryptopanic_api E)
          \<and> send_message E (composed_message E (fetch_cryptopanic_api E)) = Some e \<longrightarrow>
          c = \<lparr>last_sent = st, logged = Error_sending e,
               attempts = [composed_message E (fetch_cryptopanic_api E)]\<rparr>)
     \<and> (\<forall>e. send_message E (composed_message E (fetch_cryptopanic_api E)) = Some e \<longrightarrow>
          last_sent c = st)
     \<and> (last_sent c \<noteq> st \<longrightarrow> logged c = Sent_successfully)
     \<and> (logged c = Sent_successfully \<longrightarrow>
          last_sent c = Some (fetch_cryptopanic_api E)
          \<and> attempts c = [composed_message E (fetch_cryptopanic_api E)]
          \<and> send_message E (composed_message E (fetch_cryptopanic_api E)) = None)
     \<and> (\<forall>e. logged c = Error_sending e \<longrightarrow>
          last_sent c = st
          \<and> attempts c = [composed_message E (fetch_cryptopanic_api E)]
          \<and> send_message E (composed_message E (fetch_cryptopanic_api E)) = Some e
          \<and> (\<forall>E'. fetch_cryptopanic_api E' = fetch_cryptopanic_api E \<longrightarrow>
                should_send_update (last_sent c) (fetch_cryptopanic_api E')
                \<and> attempts (send_news_update E' (last_sent c))
                    = [composed_message E' (fetch_cryptopanic_api E)]
                \<and> (send_message E' (composed_message E' (fetch_cryptopanic_api E)) = None \<longrightarrow>
                     send_news_update E' (last_sent c) =
                       \<lparr>last_sent = Some (fetch_cryptopanic_api E), logged = Sent_successfully,
                        attempts = [composed_message E' (fetch_cryptopanic_api E)]\<rparr>)))"
proof -
  let ?news = "fetch_cryptopanic_api E"
  let ?message = "composed_message E ?news"
  have delivered: "c = \<lparr>last_sent = Some ?news, logged = Sent_successfully, attempts = [?message]\<rparr>"
    if "items_of ?news \<noteq> []" "should_send_update st ?news" "send_message E ?message = None"
    using that assms by (simp add: send_news_update_delivered)
  have failed: "c = \<lparr>last_sent = st, logged = Error_sending e, attempts = [?message]\<rparr>"
    if "items_of ?news \<noteq> []" "should_send_update st ?news" "send_message E ?message = Some e"
    for e
    using that assms by (simp add: send_news_update_failed)
  have kept: "last_sent c = st" if "send_message E ?message = Some e" for e
  proof (cases rule: send_news_update_cases [of E st])
    case no_news
    with assms show ?thesis by simp
  next
    case not_significant
    with assms show ?thesis by simp
  next
    case delivered
    with that show ?thesis by simp
  next
    case (failed e')
    with assms show ?thesis by simp
  qed
  have backward: "(last_sent c \<noteq> st \<longrightarrow> logged c = Sent_successfully)
     \<and> (logged c = Sent_successfully \<longrightarrow>
          last_sent c = Some ?news \<and> attempts c = [?message] \<and> send_message E ?message = None)
     \<and> (\<forall>e. logged c = Error_sending e \<longrightarrow>
          last_sent c = st \<and> attempts c = [?message] \<and> send_message E ?message = Some e
          \<and> (\<forall>E'. fetch_cryptopanic_api E' = ?news \<longrightarrow>
                should_send_update (last_sent c) (fetch_cryptopanic_api E')
                \<and> attempts (send_news_update E' (last_sent c)) = [composed_message E' ?news]
                \<and> (send_message E' (composed_message E' ?news) = None \<longrightarrow>
                     send_news_update E' (last_sent c) =
                       \<lparr>last_sent = Some ?news, logged = Sent_successfully,
                        attempts = [composed_message E' ?news]\<rparr>)))"
  proof (cases rule: send_news_update_cases [of E st])
    case no_news
    with assms show ?thesis by simp
  next
    case not_significant
    with assms show ?thesis by simp
  next
    case delivered
    with assms show ?thesis by simp
  next
    case (failed e)
    have again: "should_send_update (last_sent c) (fetch_cryptopanic_api E')
         \<and> attempts (send_news_update E' (last_sent c)) = [composed_message E' ?news]
         \<and> (send_message E' (composed_message E' ?news) = None \<longrightarrow>
              send_news_update E' (last_sent c) =
                \<lparr>last_sent = Some ?news, logged = Sent_successfully,
                 attempts = [composed_message E' ?news]\<rparr>)"
      if same: "fetch_cryptopanic_api E' = ?news" for E'
    proof -
      from failed assms have st: "last_sent c = st" by simp
      have ne: "items_of (fetch_cryptopanic_api E') \<noteq> []"
        and sh: "should_send_update st (fetch_cryptopanic_api E')"
        using failed same by simp_all
      show ?thesis
      proof (cases "send_message E' (composed_message E' (fetch_cryptopanic_api E'))")
        case None
        from send_news_update_delivered [OF ne sh None] sh show ?thesis
          by (simp add: st same)
      next
        case (Some e')
        from send_news_update_failed [OF ne sh Some] sh Some show ?thesis
          by (simp add: st same)
      qed
    qed
    from failed assms have "last_sent c = st" "logged c = Error_sending e"
      "attempts c = [?message]"
      by simp_all
    with failed(3) again show ?thesis
      by auto
  qed
  from delivered failed kept backward show ?thesis
    by blast
qed


theorem commit_only_after_delivery_witness:
  "should_send_update (Some snap_one) snap_abcd
   \<and> send_news_update env_down (Some snap_one) =
     \<lparr>last_sent = Some snap_one, logged = Error_sending (TelegramError (ascii ''Timed out'')),
      attempts = [composed_message env_down snap_abcd]\<rparr>
   \<and> send_news_update env_up (last_sent (send_news_update env_down (Some snap_one))) =
     \<lparr>last_sent = Some snap_abcd, logged = Sent_successfully,
      attempts = [composed_message env_up snap_abcd]\<rparr>
   \<and> send_news_update env_up (Some snap_one) =
     \<lparr>last_sent = Some snap_abcd, logged = Sent_successfully,
      attempts = [composed_message env_up snap_abcd]\<rparr>"
proof -
  have "count_new_items snap_one snap_abcd = Inr 3"
    by (simp add: count_new_items_def new_titles_def snap_one_def snap_abcd_def ascii_def)
  then have sig: "should_send_update (Some snap_one) snap_abcd"
    by (simp add: should_send_update_def)
  have down_facts: "items_of (fetch_cryptopanic_api env_down) \<noteq> []"
    "should_send_update (Some snap_one) (fetch_cryptopanic_api env_down)"
    using sig items_of_snap_abcd by (simp_all add: fetch_env_down)
  have down_fails:
    "send_message env_down (composed_message env_down (fetch_cryptopanic_api env_down))
       = Some (TelegramError (ascii ''Timed out''))"
    by (simp add: env_down_def times_out_def)
  have up_facts: "items_of (fetch_cryptopanic_api env_up) \<noteq> []"
    "should_send_update (Some snap_one) (fetch_cryptopanic_api env_up)"
    using sig items_of_snap_abcd by (simp_all add: fetch_env_up)
  have up_works:
    "send_message env_up (composed_message env_up (fetch_cryptopanic_api env_up)) = None"
    by (simp add: env_up_def delivers_def)
  from down_facts down_fails commit_only_after_delivery [OF refl, of env_down "Some snap_one"]
  have "send_news_update env_down (Some snap_one) =
     \<lparr>last_sent = Some snap_one, logged = Error_sending (TelegramError (ascii ''Timed out'')),
      attempts = [composed_message env_down (fetch_cryptopanic_api env_down)]\<rparr>"
    by blast
  then have down: "send_news_update env_down (Some snap_one) =
     \<lparr>last_sent = Some snap_one, logged = Error_sending (TelegramError (ascii ''Timed out'')),
      attempts = [composed_message env_down snap_abcd]\<rparr>"
    by (simp only: fetch_env_down)
  from up_facts up_works commit_only_after_delivery [OF refl, of env_up "Some snap_one"]
  have "send_news_update env_up (Some snap_one) =
     \<lparr>last_sent = Some (fetch_cryptopanic_api env_up), logged = Sent_successfully,
      attempts = [composed_message env_up (fetch_cryptopanic_api env_up)]\<rparr>"
    by blast
  then have up: "send_news_update env_up (Some snap_one) =
     \<lparr>last_sent = Some snap_abcd, logged = Sent_successfully,
      attempts = [composed_message env_up snap_abcd]\<rparr>"
    by (simp only: fetch_env_up)
  from down have "last_sent (send_news_update env_down (Some snap_one)) = Some snap_one"
    by simp
  with sig down up show ?thesis
    by simp
qed

text \<open>
  Claim C3.  When the fetched snapshot has no item in any of the three categories, the
  cycle logs that no news was found, hands nothing to the delivery step and keeps the
  retained snapshot, whatever it is; the change detector is not asked (on the first
  cycle it would answer true).
\<close>

theorem empty_snapshot_skipped:
  assumes "bullish (fetch_cryptopanic_api E) = []"
    and "bearish (fetch_cryptopanic_api E) = []"
    and "neutral (fetch_cryptopanic_api E) = []"
  shows "send_news_update E st = \<lparr>last_sent = st, logged = No_news_found, attempts = []\<rparr>"
  using assms by (simp add: send_news_update_no_news items_of_Nil)

theorem empty_snapshot_skipped_witness:
  "fetch_cryptopanic_api env_quiet = empty_news
   \<and> should_send_update None (fetch_cryptopanic_api env_quiet)
   \<and> send_news_update env_quiet None = \<lparr>last_sent = None, logged = No_news_found, attempts = []\<rparr>
   \<and> send_news_update env_quiet (Some snap_abcd)
       = \<lparr>last_sent = Some snap_abcd, logged = No_news_found, attempts = []\<rparr>"
proof -
  have e: "bullish (fetch_cryptopanic_api env_quiet) = []"
    "bearish (fetch_cryptopanic_api env_quiet) = []"
    "neutral (fetch_cryptopanic_api env_quiet) = []"
    by (simp_all add: fetch_env_quiet empty_news_def)
  show ?thesis
    using empty_snapshot_skipped [OF e, of None] empty_snapshot_skipped [OF e, of "Some snap_abcd"]
    by (simp add: fetch_env_quiet should_send_update_def)
qed

text \<open>
  Claim C9.  Two cycles in a row on the same snapshot, which is not empty, has titles
  that can be set members (every text is) and is significant for the first of them, with
  the delivery working: the first cycle sends and commits the snapshot, the second finds
  0 new items relative to it and skips as not significant, handing nothing to the
  delivery step.  The delivery that has to work is that of the composed update of the
  first cycle.
\<close>

theorem cycle_idempotent:
  assumes same: "fetch_cryptopanic_api E1 = news" "fetch_cryptopanic_api E2 = news"
    and nonempty: "items_of news \<noteq> []"
    and keys: "titles_hashable news"
    and significant: "should_send_update st news"
    and delivery: "send_message E1 (composed_message E1 news) = None"
  shows "send_news_update E1 st =
           \<lparr>last_sent = Some news, logged = Sent_successfully, attempts = [composed_message E1 news]\<rparr>
       \<and> count_new_items news news = Inr 0
       \<and> send_news_update E2 (last_sent (send_news_update E1 st)) =
           \<lparr>last_sent = Some news, logged = No_significant_updates, attempts = []\<rparr>"
proof -
  have first: "send_news_update E1 st =
      \<lparr>last_sent = Some news, logged = Sent_successfully, attempts = [composed_message E1 news]\<rparr>"
    using send_news_update_delivered [of E1 st] same nonempty significant delivery by simp
  have zero: "count_new_items news news = Inr 0"
    using keys by (rule count_new_items_same)
  then have "\<not> should_send_update (Some news) news"
    by (simp add: should_send_update_def)
  then have "send_news_update E2 (Some news) =
      \<lparr>last_sent = Some news, logged = No_significant_updates, attempts = []\<rparr>"
    using send_news_update_not_significant [of E2 "Some news"] same nonempty by simp
  with first zero show ?thesis by simp
qed

theorem cycle_idempotent_witness:
  "send_news_update env_up None =
     \<lparr>last_sent = Some snap_abcd, logged = Sent_successfully, attempts = [composed_message env_up snap_abcd]\<rparr>
   \<and> send_news_update env_up (last_sent (send_news_update env_up None)) =
     \<lparr>last_sent = Some snap_abcd, logged = No_significant_updates, attempts = []\<rparr>"
proof -
  have d: "send_message env_up (composed_message env_up snap_abcd) = None"
    by (simp add: env_up_def delivers_def)
  have s: "should_send_update None snap_abcd"
    by (simp add: should_send_update_def)
  from cycle_idempotent [OF fetch_env_up fetch_env_up items_of_snap_abcd titles_hashable_snap_abcd s d]
  show ?thesis
    by blast
qed

section \<open>The composer\<close>

text \<open>
  The text a loop body appends does not depend on the text before it, so a block can be
  read off on its own.
\<close>

lemma render_item_append:
  "render_item E i item message =
     (case render_item E i item [] of Inl e \<Rightarrow> Inl e | Inr line \<Rightarrow> Inr (message @ line))"
  by (simp add: render_item_def andthen_def split: sum.splits)

lemma render_items_append:
  "render_items E i items message =
     (case render_items E i items [] of Inl e \<Rightarrow> Inl e | Inr text \<Rightarrow> Inr (message @ text))"
proof (induction items arbitrary: i message)
  case Nil
  show ?case by simp
next
  case (Cons item items)
  show ?case
  proof (cases "render_item E i item []")
    case (Inl e)
    then show ?thesis
      using render_item_append [of E i item message] by simp
  next
    case (Inr line)
    then have m: "render_item E i item message = Inr (message @ line)"
      using render_item_append [of E i item message] by simp
    show ?thesis
      using Cons.IH [of "Suc i" "message @ line"] Cons.IH [of "Suc i" line] Inr m
      by (simp split: sum.splits)
  qed
qed

lemma render_block_append:
  "render_block E heading items message =
     (case render_block E heading items [] of Inl e \<Rightarrow> Inl e | Inr text \<Rightarrow> Inr (message @ text))"
  using render_items_append [of E 1 "take 5 items" "message @ heading"]
    render_items_append [of E 1 "take 5 items" heading]
  by (simp add: render_block_def split: sum.splits)

lemma render_items_lines:
  "render_items E i items message = Inr out \<Longrightarrow>
   \<exists>lines. length lines = length items \<and> out = message @ concat lines
     \<and> (\<forall>k<length items. render_item E (i + k) (items ! k) [] = Inr (lines ! k))"
proof (induction items arbitrary: i message out)
  case Nil
  then show ?case by simp
next
  case (Cons item items)
  from Cons.prems obtain m where m: "render_item E i item message = Inr m"
    and rest: "render_items E (Suc i) items m = Inr out"
    by (cases "render_item E i item message") simp_all
  from m obtain line where line: "render_item E i item [] = Inr line" and m_eq: "m = message @ line"
    using render_item_append [of E i item message] by (cases "render_item E i item []") simp_all
  from Cons.IH [OF rest] obtain lines where lines: "length lines = length items"
    "out = m @ concat lines"
    "\<forall>k<length items. render_item E (Suc i + k) (items ! k) [] = Inr (lines ! k)"
    by blast
  have "\<forall>k<length (item # items). render_item E (i + k) ((item # items) ! k) [] = Inr ((line # lines) ! k)"
  proof (intro allI impI)
    fix k assume k: "k < length (item # items)"
    show "render_item E (i + k) ((item # items) ! k) [] = Inr ((line # lines) ! k)"
    proof (cases k)
      case 0
      with line show ?thesis by simp
    next
      case (Suc j)
      with k lines(3) show ?thesis by simp
    qed
  qed
  with lines m_eq show ?case
    by (intro exI [of _ "line # lines"]) simp
qed

lemma render_item_number:
  "render_item E i item [] = Inr line \<Longrightarrow> \<exists>rest. line = dec i @ ascii ''. ['' @ rest"
  by (auto simp: render_item_def andthen_def split: sum.splits)

lemma format_body_take:
  "format_body E \<lparr>bullish = take 5 (bullish news), bearish = take 5 (bearish news),
                   neutral = take 5 (neutral news)\<rparr> fud = format_body E news fud"
  by (simp add: format_body_def render_block_def)

lemma ascii_append: "ascii (s @ t) = ascii s @ ascii t"
  by (simp add: ascii_def)

lemma length_ascii [simp]: "length (ascii s) = length s"
  by (simp add: ascii_def)

lemma render_item_story:
  "length t \<le> 100 \<Longrightarrow> render_item E i (story tag t) message = Inr (message @ story_line i t)"
  by (simp add: render_item_def story_def format_currencies_def py_join_def truncate_title_def
      py_format_def story_line_def ascii_def)

lemma render_block_fifty:
  "render_block E bullish_heading fifty_stories [] = Inr (bullish_heading @ concat five_lines)"
  by (simp add: render_block_def fifty_stories_def five_lines_def render_item_story eval_nat_numeral)

text \<open>The placeholder for an item without currencies is written into the prompt only.\<close>

lemma summary_currencies_none:
  "currencies item = [] \<Longrightarrow> summary_currencies item = Inr (ascii ''general market'')"
  by (simp add: summary_currencies_def)

lemma format_snap_bare: "format_telegram_message env_up snap_bare [] = bare_message"
  by (simp add: format_telegram_message_def format_body_def render_block_def render_item_def
      snap_bare_def bare_story_def story_def format_currencies_def truncate_title_def
      py_format_def footer_def env_up_def bare_message_def dec.simps ascii_def)

lemma format_body_null_code: "format_body env_up snap_null_code [] = Inl TypeError"
  by (simp add: format_body_def render_block_def render_item_def snap_null_code_def
      null_code_story_def story_def format_currencies_def py_join_def)

lemma format_body_Inr:
  assumes "format_body E news fud = Inr m"
  shows "\<exists>b1 b2 b3. render_block E bullish_heading (bullish news) [] = Inr b1
      \<and> render_block E bearish_heading (bearish news) [] = Inr b2
      \<and> render_block E neutral_heading (neutral news) [] = Inr b3
      \<and> m = header @ narrative_block fud @ b1 @ b2 @ b3 @ footer E"
proof -
  let ?m0 = "header @ narrative_block fud"
  from assms obtain m1 m2 m3 where
    r1: "render_block E bullish_heading (bullish news) ?m0 = Inr m1"
    and r2: "render_block E bearish_heading (bearish news) m1 = Inr m2"
    and r3: "render_block E neutral_heading (neutral news) m2 = Inr m3"
    and m: "m = m3 @ footer E"
    by (auto simp: format_body_def Let_def narrative_block_def andthen_def split: sum.splits if_splits)
  from r1 obtain b1 where b1: "render_block E bullish_heading (bullish news) [] = Inr b1"
    "m1 = ?m0 @ b1"
    using render_block_append [of E bullish_heading "bullish news" ?m0]
    by (cases "render_block E bullish_heading (bullish news) []") simp_all
  from r2 obtain b2 where b2: "render_block E bearish_heading (bearish news) [] = Inr b2"
    "m2 = m1 @ b2"
    using render_block_append [of E bearish_heading "bearish news" m1]
    by (cases "render_block E bearish_heading (bearish news) []") simp_all
  from r3 obtain b3 where b3: "render_block E neutral_heading (neutral news) [] = Inr b3"
    "m3 = m2 @ b3"
    using render_block_append [of E neutral_heading "neutral news" m2]
    by (cases "render_block E neutral_heading (neutral news) []") simp_all
  from b1 b2 b3 m show ?thesis by simp
qed

text \<open>
  Claim C6.  The composer renders the same text for a snapshot and for the snapshot cut
  to the first 5 items of every category.  A category block that is rendered consists
  of its heading (if the category has an item) and one entry per item for the first
  \<open>min 5 n\<close> of the \<open>n\<close> items, in the order of the snapshot; entry \<open>k\<close> (from 0) is
  the rendering of item \<open>k\<close> under the number \<open>k + 1\<close> and begins with that number.
\<close>

theorem block_renders_first_five:
  "format_telegram_message E news fud =
     format_telegram_message E
       \<lparr>bullish = take 5 (bullish news), bearish = take 5 (bearish news),
        neutral = take 5 (neutral news)\<rparr> fud
   \<and> (render_block E heading items message = Inr out \<longrightarrow>
        (\<exists>lines. length lines = min 5 (length items)
           \<and> out = message @ (if items = [] then [] else heading) @ concat lines
           \<and> (\<forall>k<length lines.
                 render_item E (Suc k) (items ! k) [] = Inr (lines ! k)
                 \<and> (\<exists>rest. lines ! k = dec (Suc k) @ ascii ''. ['' @ rest))))"
proof -
  have same: "format_telegram_message E news fud =
     format_telegram_message E
       \<lparr>bullish = take 5 (bullish news), bearish = take 5 (bearish news),
        neutral = take 5 (neutral news)\<rparr> fud"
    by (simp add: format_telegram_message_def format_body_take)
  have block: "\<exists>lines. length lines = min 5 (length items)
           \<and> out = message @ (if items = [] then [] else heading) @ concat lines
           \<and> (\<forall>k<length lines.
                 render_item E (Suc k) (items ! k) [] = Inr (lines ! k)
                 \<and> (\<exists>rest. lines ! k = dec (Suc k) @ ascii ''. ['' @ rest))"
    if ok: "render_block E heading items message = Inr out"
  proof (cases "items = []")
    case True
    with ok show ?thesis
      by (intro exI [of _ "[]"]) (simp add: render_block_def)
  next
    case False
    with ok have "render_items E 1 (take 5 items) (message @ heading) = Inr out"
      by (simp add: render_block_def)
    from render_items_lines [OF this] obtain lines where lines:
      "length lines = length (take 5 items)" "out = (message @ heading) @ concat lines"
      "\<forall>k<length (take 5 items). render_item E (1 + k) (take 5 items ! k) [] = Inr (lines ! k)"
      by blast
    have "render_item E (Suc k) (items ! k) [] = Inr (lines ! k)
          \<and> (\<exists>rest. lines ! k = dec (Suc k) @ ascii ''. ['' @ rest)" if "k < length lines" for k
    proof -
      from that lines(1) have k: "k < length (take 5 items)" by simp
      then have "take 5 items ! k = items ! k" by simp
      with lines(3) k have "render_item E (Suc k) (items ! k) [] = Inr (lines ! k)"
        by auto
      then show ?thesis
        using render_item_number by blast
    qed
    with lines(1,2) False show ?thesis
      by (intro exI [of _ lines]) (simp add: min_def)
  qed
  from same block show ?thesis by blast
qed

theorem block_renders_first_five_witness:
  "length fifty_stories = 50
   \<and> render_block env_up bullish_heading fifty_stories [] = Inr (bullish_heading @ concat five_lines)
   \<and> (\<exists>lines. length lines = 5 \<and> concat five_lines = concat lines
        \<and> lines ! 0 = story_line 1 ''A'' \<and> lines ! 4 = story_line 5 ''E'')"
proof -
  have n: "length fifty_stories = 50"
    by (simp add: fifty_stories_def)
  have ne: "fifty_stories \<noteq> []"
    by (simp add: fifty_stories_def)
  have first: "render_item env_up (Suc 0) (fifty_stories ! 0) [] = Inr (story_line 1 ''A'')"
    and fifth: "render_item env_up (Suc 4) (fifty_stories ! 4) [] = Inr (story_line 5 ''E'')"
    by (simp_all add: fifty_stories_def render_item_story)
  from render_block_fifty [of env_up]
    block_renders_first_five
      [of env_up _ _ bullish_heading fifty_stories "[]" "bullish_heading @ concat five_lines"]
  obtain lines where lines: "length lines = min 5 (length fifty_stories)"
    "bullish_heading @ concat five_lines
       = [] @ (if fifty_stories = [] then [] else bullish_heading) @ concat lines"
    "\<forall>k<length lines. render_item env_up (Suc k) (fifty_stories ! k) [] = Inr (lines ! k)"
    by blast
  from lines(1) n have len: "length lines = 5"
    by simp
  from lines(2) ne have same: "concat five_lines = concat lines"
    by simp
  from len have l0: "0 < length lines" and l4: "4 < length lines"
    by simp_all
  from lines(3) [rule_format, OF l0] first have e0: "lines ! 0 = story_line 1 ''A''"
    by simp
  from lines(3) [rule_format, OF l4] fifth have e4: "lines ! 4 = story_line 5 ''E''"
    by simp
  from len same e0 e4 n render_block_fifty [of env_up] show ?thesis
    by blast
qed

text \<open>
  Claim C7.  For an item with a text title whose currencies can be rendered, the entry
  shows the first 97 characters of the title followed by the three characters
  \<^verbatim>\<open>...\<close> when the title has more than 100 characters (100 characters in all), and
  the title unchanged when it has 100 characters or fewer.
\<close>

theorem title_truncated_to_100:
  assumes "title item = PStr s" and "format_currencies item = Inr cur"
  shows "truncate_title (title item)
           = Inr (PStr (if 100 < length s then take 97 s @ ascii ''...'' else s))
     \<and> render_item E i item message =
         Inr (message
              @ dec i @ ascii ''. ['' @ (if 100 < length s then take 97 s @ ascii ''...'' else s)
              @ ascii '']('' @ py_format E (url item) @ ascii '')'' @ cur @ nl
              @ ascii ''   *Source:* '' @ py_format E (source item) @ nl @ nl)
     \<and> (100 < length s \<longrightarrow>
          length (take 97 s @ ascii ''...'') = 100 \<and> length (ascii ''...'') = 3)"
  using assms
  by (simp add: truncate_title_def render_item_def py_format_def)

theorem title_truncated_to_100_witness:
  "title long_story = PStr (replicate 150 120)
   \<and> format_currencies long_story = Inr (ascii '' [BTC]'')
   \<and> truncate_title (title long_story) = Inr (PStr (replicate 97 120 @ ascii ''...''))
   \<and> length (replicate 97 (120::int) @ ascii ''...'') = 100
   \<and> truncate_title (title (story ''bullish'' ''A'')) = Inr (PStr (ascii ''A''))"
proof -
  have t: "title long_story = PStr (replicate 150 120)"
    by (simp add: long_story_def)
  have c: "format_currencies long_story = Inr (ascii '' [BTC]'')"
    by (simp add: long_story_def story_def format_currencies_def py_join_def ascii_def)
  have t': "title (story ''bullish'' ''A'') = PStr (ascii ''A'')"
    and c': "format_currencies (story ''bullish'' ''A'') = Inr (ascii '' [BTC]'')"
    by (simp_all add: story_def format_currencies_def py_join_def ascii_def)
  from title_truncated_to_100 [OF t c] title_truncated_to_100 [OF t' c'] t c show ?thesis
    by simp
qed

text \<open>
  Claim C5, as stated, fails: an item with no currency code is rendered without the
  text \<^verbatim>\<open>general market\<close>.  The composed message for the snapshot of one such story is
  \<open>bare_message\<close>, in which that text does not occur.
\<close>

theorem general_market_not_rendered:
  "currencies bare_story = []
   \<and> format_telegram_message env_up snap_bare [] = bare_message
   \<and> \<not> contains (ascii ''general market'') bare_message"
proof -
  have "\<not> contains (ascii ''general market'') bare_message"
    by (simp add: bare_message_def header_def bullish_heading_def nl_def ascii_def)
  then show ?thesis
    by (simp add: format_snap_bare bare_story_def)
qed

text \<open>
  Claim C5, amended.  For an item with no currency code the entry has no code list and
  nothing in its place: the closing parenthesis of the link is followed by the line
  break.
\<close>

theorem no_codes_no_list:
  assumes "currencies item = []" and "truncate_title (title item) = Inr t"
  shows "format_currencies item = Inr []
     \<and> render_item E i item message =
         Inr (message
              @ dec i @ ascii ''. ['' @ py_format E t @ ascii '']('' @ py_format E (url item)
              @ ascii '')'' @ nl
              @ ascii ''   *Source:* '' @ py_format E (source item) @ nl @ nl)"
  using assms by (simp add: render_item_def format_currencies_def)

theorem no_codes_no_list_witness:
  "currencies bare_story = []
   \<and> truncate_title (title bare_story) = Inr (PStr (ascii ''A''))
   \<and> render_item env_up 1 bare_story [] =
       Inr (ascii ''1. [A](https://example.org/A)'' @ nl @ ascii ''   *Source:* Wire'' @ nl @ nl)"
proof -
  have c: "currencies bare_story = []"
    by (simp add: bare_story_def)
  have t: "truncate_title (title bare_story) = Inr (PStr (ascii ''A''))"
    by (simp add: bare_story_def story_def truncate_title_def)
  from no_codes_no_list [OF c t, of env_up 1 "[]"] c t show ?thesis
    by (simp add: py_format_def bare_story_def story_def dec.simps ascii_def)
qed

text \<open>
  Claim C8.  \<open>format_telegram_message\<close> gives a text for every snapshot and every
  narrative: either no step of the body raises and the text is the header, the
  narrative block, the three category blocks and the footer, or a step raises and the
  text is \<^verbatim>\<open>Error formatting news: \<close> followed by the text of the exception.
\<close>

theorem composer_never_fails:
  "(\<exists>b1 b2 b3. render_block E bullish_heading (bullish news) [] = Inr b1
      \<and> render_block E bearish_heading (bearish news) [] = Inr b2
      \<and> render_block E neutral_heading (neutral news) [] = Inr b3
      \<and> format_telegram_message E news fud
          = header @ narrative_block fud @ b1 @ b2 @ b3 @ footer E)
   \<or> (\<exists>e. format_body E news fud = Inl e
      \<and> format_telegram_message E news fud = ascii ''Error formatting news: '' @ str_exn E e)"
proof (cases "format_body E news fud")
  case (Inl e)
  then show ?thesis
    by (simp add: format_telegram_message_def)
next
  case (Inr m)
  then have "format_telegram_message E news fud = m"
    by (simp add: format_telegram_message_def)
  with format_body_Inr [OF Inr] show ?thesis
    by auto
qed

theorem composer_never_fails_witness:
  "format_body env_up snap_null_code [] = Inl TypeError
   \<and> format_telegram_message env_up snap_null_code [] = ascii ''Error formatting news: TypeError''
   \<and> format_telegram_message env_up snap_bare [] = bare_message"
proof -
  from composer_never_fails [of env_up snap_null_code "[]"] format_body_null_code
  have "format_telegram_message env_up snap_null_code []
          = ascii ''Error formatting news: '' @ str_exn env_up TypeError"
    by (auto simp: snap_null_code_def render_block_def null_code_story_def story_def
        render_item_def format_currencies_def py_join_def)
  moreover have "str_exn env_up TypeError = ascii ''TypeError''"
    by (simp add: env_up_def class_name_def)
  moreover have "ascii ''Error formatting news: '' @ ascii ''TypeError''
      = ascii ''Error formatting news: TypeError''"
    by (simp add: ascii_def)
  ultimately show ?thesis
    by (simp add: format_body_null_code format_snap_bare)
qed

section \<open>The fetch\<close>

lemma process_response_not_200: "status \<noteq> 200 \<Longrightarrow> process_response tag status body = ([], None)"
  by (simp add: process_response_def)

lemma process_response_undecodable: "process_response tag 200 (Inl e) = ([], Some e)"
  by (simp add: process_response_def)

lemma fetch_env_partial: "fetch_cryptopanic_api env_partial = snap_abcd"
  using process_response_feed [of "''bullish''" "[''A'', ''B'', ''C'', ''D'']"]
    process_response_feed [of "''neutral''" "[]"]
  by (simp add: fetch_cryptopanic_api_def env_partial_def env_up_def feed_def snap_abcd_def
      process_response_not_200)

lemma fetch_empty:
  assumes "\<not> api_key_set E
      \<or> request_raised (bullish_response E) \<or> request_raised (bearish_response E)
      \<or> request_raised (neutral_response E)
      \<or> (\<not> served (bullish_response E) \<and> \<not> served (bearish_response E)
          \<and> \<not> served (neutral_response E))
      \<or> (\<exists>e. bullish_response E = Response 200 (Inl e))"
  shows "fetch_cryptopanic_api E = empty_news"
  using assms
  by (auto simp: fetch_cryptopanic_api_def request_raised_def served_def empty_news_def
      process_response_not_200 process_response_undecodable split: http_result.splits)

lemma fetch_no_exception:
  assumes "api_key_set E" "bullish_response E = Response s1 b1"
    "bearish_response E = Response s2 b2" "neutral_response E = Response s3 b3"
    "snd (process_response (ascii ''bullish'') s1 b1) = None"
    "snd (process_response (ascii ''bearish'') s2 b2) = None"
    "snd (process_response (ascii ''neutral'') s3 b3) = None"
  shows "fetch_cryptopanic_api E =
     \<lparr>bullish = fst (process_response (ascii ''bullish'') s1 b1),
      bearish = fst (process_response (ascii ''bearish'') s2 b2),
      neutral = fst (process_response (ascii ''neutral'') s3 b3)\<rparr>"
  using assms
  by (auto simp: fetch_cryptopanic_api_def split: prod.splits option.splits)

text \<open>
  Claim C4, as stated, fails: with the bearish request answered by a status 500, the
  bullish items are a snapshot like any other; on the first cycle the update is sent
  and the snapshot committed.
\<close>

theorem partial_fetch_is_sent:
  "bearish_response env_partial = Response 500 (Inl JSONDecodeError)
   \<and> send_news_update env_partial None =
       \<lparr>last_sent = Some snap_abcd, logged = Sent_successfully,
        attempts = [composed_message env_partial snap_abcd]\<rparr>"
proof -
  have "send_message env_partial (composed_message env_partial snap_abcd) = None"
    by (simp add: env_partial_def env_up_def delivers_def)
  then show ?thesis
    using send_news_update_delivered [of env_partial None]
    by (simp add: fetch_env_partial items_of_snap_abcd should_send_update_def)
       (simp add: env_partial_def)
qed

text \<open>
  Claim C4, amended.  When the API key is missing, when one of the three requests
  raises (network error, timeout), when no response has status 200, or when the first
  response cannot be decoded, the fetched snapshot is empty and the cycle logs that no
  news was found, keeps the retained snapshot and hands nothing to the delivery step.
  A response with a status other than 200 contributes no item and raises nothing; when
  nothing raises, every category holds the items of its own response, so the items of
  the categories that were answered are the snapshot of the cycle.
\<close>

theorem failed_fetch_gives_no_news:
  "(\<not> api_key_set E
      \<or> request_raised (bullish_response E) \<or> request_raised (bearish_response E)
      \<or> request_raised (neutral_response E)
      \<or> (\<not> served (bullish_response E) \<and> \<not> served (bearish_response E)
          \<and> \<not> served (neutral_response E))
      \<or> (\<exists>e. bullish_response E = Response 200 (Inl e)) \<longrightarrow>
      fetch_cryptopanic_api E = empty_news
      \<and> send_news_update E st = \<lparr>last_sent = st, logged = No_news_found, attempts = []\<rparr>)
   \<and> (status \<noteq> 200 \<longrightarrow> process_response tag status body = ([], None))
   \<and> (api_key_set E \<and> bullish_response E = Response s1 b1
      \<and> bearish_response E = Response s2 b2 \<and> neutral_response E = Response s3 b3
      \<and> snd (process_response (ascii ''bullish'') s1 b1) = None
      \<and> snd (process_response (ascii ''bearish'') s2 b2) = None
      \<and> snd (process_response (ascii ''neutral'') s3 b3) = None \<longrightarrow>
      fetch_cryptopanic_api E =
        \<lparr>bullish = fst (process_response (ascii ''bullish'') s1 b1),
         bearish = fst (process_response (ascii ''bearish'') s2 b2),
         neutral = fst (process_response (ascii ''neutral'') s3 b3)\<rparr>)"
proof -
  have "send_news_update E st = \<lparr>last_sent = st, logged = No_news_found, attempts = []\<rparr>"
    if "fetch_cryptopanic_api E = empty_news"
    using that send_news_update_no_news [of E st] by (simp add: items_of_def empty_news_def)
  then show ?thesis
    using fetch_empty [of E] fetch_no_exception [of E s1 b1 s2 b2 s3 b3]
      process_response_not_200 [of status tag body]
    by blast
qed

theorem failed_fetch_gives_no_news_witness:
  "request_raised (neutral_response env_offline)
   \<and> send_news_update env_offline (Some snap_one)
       = \<lparr>last_sent = Some snap_one, logged = No_news_found, attempts = []\<rparr>
   \<and> process_response (ascii ''bearish'') 500 (Inl JSONDecodeError) = ([], None)
   \<and> fetch_cryptopanic_api env_partial = snap_abcd"
proof -
  let ?b1 = "Inr (PDict [(ascii ''results'', PList (map post [''A'', ''B'', ''C'', ''D'']))])"
  let ?b3 = "Inr (PDict [(ascii ''results'', PList (map post []))])"
  have r: "request_raised (neutral_response env_offline)"
    by (simp add: env_offline_def request_raised_def)
  have p: "api_key_set env_partial"
    "bullish_response env_partial = Response 200 ?b1"
    "bearish_response env_partial = Response 500 (Inl JSONDecodeError)"
    "neutral_response env_partial = Response 200 ?b3"
    by (simp_all add: env_partial_def env_up_def feed_def)
  have q: "process_response (ascii ''bullish'') 200 ?b1 = (map (story ''bullish'') [''A'', ''B'', ''C'', ''D''], None)"
    "process_response (ascii ''neutral'') 200 ?b3 = (map (story ''neutral'') [], None)"
    by (rule process_response_feed)+
  from r failed_fetch_gives_no_news [of env_offline "Some snap_one"]
  have a: "send_news_update env_offline (Some snap_one)
       = \<lparr>last_sent = Some snap_one, logged = No_news_found, attempts = []\<rparr>"
    by blast
  from failed_fetch_gives_no_news [of _ _ 500 "ascii ''bearish''" "Inl JSONDecodeError"]
  have n: "process_response (ascii ''bearish'') 500 (Inl JSONDecodeError) = ([], None)"
    by simp
  from p q n failed_fetch_gives_no_news [of env_partial _ _ _ _ 200 ?b1 500 "Inl JSONDecodeError" 200 ?b3]
  have "fetch_cryptopanic_api env_partial =
        \<lparr>bullish = fst (process_response (ascii ''bullish'') 200 ?b1),
         bearish = fst (process_response (ascii ''bearish'') 500 (Inl JSONDecodeError)),
         neutral = fst (process_response (ascii ''neutral'') 200 ?b3)\<rparr>"
    by simp
  with q n have b: "fetch_cryptopanic_api env_partial = snap_abcd"
    by (simp add: snap_abcd_def)
  from r a n b show ?thesis by blast
qed

end
